theory Spec2Isabelle
  imports Complex_Main
begin

section \<open>Values exchanged with the platform\<close>

text \<open>
  Texts are JavaScript strings; one \<^typ>\<open>char\<close> stands for one code unit, so the model
  covers texts whose code units fit in a \<^typ>\<open>char\<close>. A decoded JSON value keeps the
  order of an object's members; a number holds the exact value of the IEEE double.
\<close>

datatype json =
    JNull
  | JBool bool
  | JNumber rat
  | JString string
  | JArray "json list"
  | JObject "(string \<times> json) list"

text \<open>
  A thrown value, as far as the handlers look at it: \<open>error instanceof Error\<close>,
  \<open>error.name\<close>, \<open>error.message\<close>, \<open>error.stack\<close> (may be undefined) and
  \<open>String(error)\<close>.
\<close>

record thrown =
  is_Error :: bool
  err_name :: string
  err_message :: string
  err_stack :: "string option"
  err_text :: string

record File =
  file_name :: string
  file_type :: string
  file_size :: nat

text \<open>
  The upstream service as the proxy's \<open>fetch\<close> sees it. Times are milliseconds:
  \<open>Responds t status body\<close> delivers status line and headers \<open>t\<close> ms after the call
  was issued; the body then takes a further delay to arrive in full, or fails to.
  \<open>Rejects t e\<close> is a network failure after \<open>t\<close> ms; \<open>Silent\<close> never answers.
\<close>

datatype body_read = BodyText nat string | BodyFails nat thrown

datatype fetch_behaviour =
    Responds nat nat body_read
  | Rejects nat thrown
  | Silent

record platform =
  env_FACE_API_URL :: "string option"
  env_AGE_API_URL :: "string option"
  readAsDataURL :: "File \<Rightarrow> thrown + string"
  json_decoder :: "string \<Rightarrow> json option"
  upstream :: fetch_behaviour
  abort_stack :: "string option"

text \<open>
  \<open>JSON.parse\<close> is the platform's decoder, a parameter of the model; \<open>None\<close> stands for
  the SyntaxError it throws. The one fact fixed here is that it rejects the empty text.
\<close>

definition JSON_parse :: "platform \<Rightarrow> string \<Rightarrow> json option" where
  "JSON_parse P text = (if text = [] then None else json_decoder P text)"

text \<open>The rejection reason of an aborted \<open>fetch\<close>: a DOMException named AbortError.\<close>

definition AbortError :: "string option \<Rightarrow> thrown" where
  "AbortError stk =
     \<lparr> is_Error = True, err_name = ''AbortError'',
       err_message = ''This operation was aborted'', err_stack = stk,
       err_text = ''AbortError: This operation was aborted'' \<rparr>"

record request =
  formData :: "thrown + (string \<times> File) list"
  x_api_key :: "string option"

record outbound =
  out_url :: string
  out_method :: string
  out_headers :: "(string \<times> string) list"
  out_body :: json

datatype effect = SetTimeout nat | ClearTimeout | Fetch outbound | Abort

text \<open>
  What one run of a handler amounts to: the response built by \<open>NextResponse.json\<close>
  (status and JSON body), the effects in the order they happened, and the time at which
  the handler answered, counted in ms from the moment the outbound call was issued
  (local work is taken as instantaneous).
\<close>

record outcome =
  reply_status :: nat
  reply_body :: json
  effects :: "effect list"
  answered_at :: nat

section \<open>JavaScript helpers\<close>

text \<open>\<open>s.split(",")\<close>: the pieces between the separators; never an empty array.\<close>

fun split_on :: "char \<Rightarrow> string \<Rightarrow> string list" where
  "split_on c [] = [[]]"
| "split_on c (x # xs) =
     (if x = c then [] # split_on c xs
      else (case split_on c xs of [] \<Rightarrow> [[x]] | w # ws \<Rightarrow> (x # w) # ws))"

text \<open>\<open>pieces[1]\<close>, undefined when there is no second piece.\<close>

fun second :: "'a list \<Rightarrow> 'a option" where
  "second (_ # p # _) = Some p"
| "second _ = None"

text \<open>An object literal handed to \<open>JSON.stringify\<close>: members that are undefined are left out.\<close>

fun js_object :: "(string \<times> json option) list \<Rightarrow> (string \<times> json) list" where
  "js_object [] = []"
| "js_object ((k, None) # kvs) = js_object kvs"
| "js_object ((k, Some v) # kvs) = (k, v) # js_object kvs"

fun js_truthy :: "json \<Rightarrow> bool" where
  "js_truthy JNull = False"
| "js_truthy (JBool b) = b"
| "js_truthy (JNumber n) = (n \<noteq> 0)"
| "js_truthy (JString s) = (s \<noteq> [])"
| "js_truthy (JArray _) = True"
| "js_truthy (JObject _) = True"

text \<open>\<open>value?.name\<close> on a decoded JSON value: only an object can have the member.\<close>

fun get_prop :: "json \<Rightarrow> string \<Rightarrow> json option" where
  "get_prop (JObject kvs) name = map_of kvs name"
| "get_prop _ name = None"

fun show_nat :: "nat \<Rightarrow> string" where
  "show_nat n =
     (if n < 10 then [''0123456789'' ! n]
      else show_nat (n div 10) @ [''0123456789'' ! (n mod 10)])"

declare show_nat.simps [simp del]

definition response_ok :: "nat \<Rightarrow> bool" where
  "response_ok status = (200 \<le> status \<and> status \<le> 299)"

section \<open>The proxy endpoints\<close>

text \<open>
  \<open>fileToBase64\<close> (the same function in both route files): the reader's error is the
  rejection; on load the result is split at the commas and the second piece is the
  value, undefined when the result holds no comma.
\<close>

definition fileToBase64 :: "platform \<Rightarrow> File \<Rightarrow> thrown + string option" where
  "fileToBase64 P file =
     (case readAsDataURL P file of
        Inl error \<Rightarrow> Inl error
      | Inr base64String \<Rightarrow> Inr (second (split_on CHR '','' base64String)))"

text \<open>
  \<open>await fetch(url, {..., signal})\<close> under a timer of \<open>delay\<close> ms whose callback aborts
  the signal. The call is issued; whichever of the two events comes first decides. A
  response or failure arriving at exactly \<open>delay\<close> ms is taken to come first.
\<close>

datatype fetch_result = Resolved nat body_read | Rejected thrown

definition await_fetch ::
  "platform \<Rightarrow> outbound \<Rightarrow> nat \<Rightarrow> fetch_result \<times> effect list \<times> nat" where
  "await_fetch P call delay =
     (case upstream P of
        Responds t status body \<Rightarrow>
          if t \<le> delay then (Resolved status body, [Fetch call], t)
          else (Rejected (AbortError (abort_stack P)), [Fetch call, Abort], delay)
      | Rejects t e \<Rightarrow>
          if t \<le> delay then (Rejected e, [Fetch call], t)
          else (Rejected (AbortError (abort_stack P)), [Fetch call, Abort], delay)
      | Silent \<Rightarrow> (Rejected (AbortError (abort_stack P)), [Fetch call, Abort], delay))"

text \<open>The branch for a non-ok status and the final return, identical in both routes.\<close>

definition relay :: "nat \<Rightarrow> json \<Rightarrow> nat \<times> json" where
  "relay status responseData =
     (if \<not> response_ok status then
        (status,
         JObject
           [(''error'',
               (case get_prop responseData ''message'' of
                  Some m \<Rightarrow>
                    if js_truthy m then m
                    else JString (''API returned error status: '' @ show_nat status)
                | None \<Rightarrow> JString (''API returned error status: '' @ show_nat status))),
            (''details'', responseData),
            (''status'', JNumber (of_nat status))])
      else (200, responseData))"

definition parse_failure :: "string \<Rightarrow> nat \<times> json" where
  "parse_failure responseText =
     (500,
      JObject
        [(''error'', JString ''Failed to parse API response as JSON''),
         (''details'', JString (take 500 responseText))])"

text \<open>The outer \<open>catch\<close>, identical in both routes.\<close>

definition caught :: "thrown \<Rightarrow> effect list \<Rightarrow> nat \<Rightarrow> outcome" where
  "caught error fx t =
     (let errorMessage =
            (if is_Error error then
               (if err_name error = ''AbortError'' then ''Request timed out after 30 seconds''
                else ''Error: '' @ err_message error)
             else ''Internal server error'')
      in \<lparr> reply_status = 500,
           reply_body =
             JObject
               (js_object
                  [(''error'', Some (JString errorMessage)),
                   (''details'',
                      if is_Error error then map_option JString (err_stack error)
                      else Some (JString (err_text error)))]),
           effects = fx,
           answered_at = t \<rparr>)"

definition respond :: "nat \<times> json \<Rightarrow> effect list \<Rightarrow> nat \<Rightarrow> outcome" where
  "respond r fx t =
     \<lparr> reply_status = fst r, reply_body = snd r, effects = fx, answered_at = t \<rparr>"

subsection \<open>Verification route\<close>

definition FACE_API_URL :: "platform \<Rightarrow> string" where
  "FACE_API_URL P =
     (case env_FACE_API_URL P of
        None \<Rightarrow> ''https://face.simic.app/api/verify/''
      | Some u \<Rightarrow> if u = [] then ''https://face.simic.app/api/verify/'' else u)"

definition verify_call :: "platform \<Rightarrow> string \<Rightarrow> string option \<Rightarrow> string option \<Rightarrow> outbound" where
  "verify_call P apiKey img1Base64 img2Base64 =
     \<lparr> out_url = FACE_API_URL P,
       out_method = ''POST'',
       out_headers =
         [(''Content-Type'', ''application/json''),
          (''X-Service-Code'', ''face''),
          (''X-API-KEY'', apiKey)],
       out_body =
         JObject
           (js_object
              [(''img1'', map_option JString img1Base64),
               (''img2'', map_option JString img2Base64)]) \<rparr>"

text \<open>
  The inner \<open>try\<close> of the verification route, entered with the timer running: either a
  response to return or the error rethrown to the outer \<open>catch\<close>.
\<close>

definition verify_try ::
  "platform \<Rightarrow> string \<Rightarrow> string option \<Rightarrow> string option \<Rightarrow>
   (thrown + nat \<times> json) \<times> effect list \<times> nat" where
  "verify_try P apiKey img1Base64 img2Base64 =
     (case await_fetch P (verify_call P apiKey img1Base64 img2Base64) 30000 of
        (Rejected fetchError, fx, t) \<Rightarrow> (Inl fetchError, fx @ [ClearTimeout], t)
      | (Resolved status body, fx, t) \<Rightarrow>
          (case body of
             BodyFails d fetchError \<Rightarrow>
               (Inl fetchError, fx @ [ClearTimeout, ClearTimeout], t + d)
           | BodyText d responseText \<Rightarrow>
               (case JSON_parse P responseText of
                  None \<Rightarrow> (Inr (parse_failure responseText), fx @ [ClearTimeout], t + d)
                | Some responseData \<Rightarrow>
                    (Inr (relay status responseData), fx @ [ClearTimeout], t + d))))"

definition verify_POST :: "platform \<Rightarrow> request \<Rightarrow> outcome" where
  "verify_POST P req =
     (case formData req of
        Inl error \<Rightarrow> caught error [] 0
      | Inr form \<Rightarrow>
          (case x_api_key req of
             None \<Rightarrow> respond (400, JObject [(''error'', JString ''X-API-KEY is required'')]) [] 0
           | Some apiKey \<Rightarrow>
               if apiKey = [] then
                 respond (400, JObject [(''error'', JString ''X-API-KEY is required'')]) [] 0
               else
                 (case (map_of form ''img1'', map_of form ''img2'') of
                    (Some img1, Some img2) \<Rightarrow>
                      (case fileToBase64 P img1 of
                         Inl error \<Rightarrow> caught error [] 0
                       | Inr img1Base64 \<Rightarrow>
                           (case fileToBase64 P img2 of
                              Inl error \<Rightarrow> caught error [] 0
                            | Inr img2Base64 \<Rightarrow>
                                (case verify_try P apiKey img1Base64 img2Base64 of
                                   (Inl error, fx, t) \<Rightarrow> caught error (SetTimeout 30000 # fx) t
                                 | (Inr r, fx, t) \<Rightarrow> respond r (SetTimeout 30000 # fx) t)))
                  | _ \<Rightarrow>
                      respond (400, JObject [(''error'', JString ''Both images are required'')])
                        [] 0)))"

subsection \<open>Age route\<close>

definition AGE_API_URL :: "platform \<Rightarrow> string" where
  "AGE_API_URL P =
     (case env_AGE_API_URL P of
        None \<Rightarrow> ''https://face.simic.app/api/age/''
      | Some u \<Rightarrow> if u = [] then ''https://face.simic.app/api/age/'' else u)"

definition age_call :: "platform \<Rightarrow> string \<Rightarrow> string option \<Rightarrow> outbound" where
  "age_call P apiKey imageBase64 =
     \<lparr> out_url = AGE_API_URL P,
       out_method = ''POST'',
       out_headers =
         [(''Content-Type'', ''application/json''),
          (''X-Service-Code'', ''face''),
          (''X-API-KEY'', apiKey)],
       out_body = JObject (js_object [(''image'', map_option JString imageBase64)]) \<rparr>"

text \<open>
  The inner \<open>try\<close> of the age route. It differs from the verification route in the
  decoding step: an empty body is not handed to \<open>JSON.parse\<close> but replaced by a fixed
  object.
\<close>

definition age_try ::
  "platform \<Rightarrow> string \<Rightarrow> string option \<Rightarrow> (thrown + nat \<times> json) \<times> effect list \<times> nat" where
  "age_try P apiKey imageBase64 =
     (case await_fetch P (age_call P apiKey imageBase64) 30000 of
        (Rejected fetchError, fx, t) \<Rightarrow> (Inl fetchError, fx @ [ClearTimeout], t)
      | (Resolved status body, fx, t) \<Rightarrow>
          (case body of
             BodyFails d fetchError \<Rightarrow>
               (Inl fetchError, fx @ [ClearTimeout, ClearTimeout], t + d)
           | BodyText d responseText \<Rightarrow>
               (case (if responseText \<noteq> [] then JSON_parse P responseText
                      else Some (JObject [(''error'', JString ''Empty response from API'')])) of
                  None \<Rightarrow> (Inr (parse_failure responseText), fx @ [ClearTimeout], t + d)
                | Some responseData \<Rightarrow>
                    (Inr (relay status responseData), fx @ [ClearTimeout], t + d))))"

definition age_POST :: "platform \<Rightarrow> request \<Rightarrow> outcome" where
  "age_POST P req =
     (case formData req of
        Inl error \<Rightarrow> caught error [] 0
      | Inr form \<Rightarrow>
          (case x_api_key req of
             None \<Rightarrow> respond (400, JObject [(''error'', JString ''X-API-KEY is required'')]) [] 0
           | Some apiKey \<Rightarrow>
               if apiKey = [] then
                 respond (400, JObject [(''error'', JString ''X-API-KEY is required'')]) [] 0
               else
                 (case map_of form ''image'' of
                    None \<Rightarrow>
                      respond (400, JObject [(''error'', JString ''Image is required'')]) [] 0
                  | Some image_file \<Rightarrow>
                      (case fileToBase64 P image_file of
                         Inl error \<Rightarrow> caught error [] 0
                       | Inr imageBase64 \<Rightarrow>
                           (case age_try P apiKey imageBase64 of
                              (Inl error, fx, t) \<Rightarrow> caught error (SetTimeout 30000 # fx) t
                            | (Inr r, fx, t) \<Rightarrow> respond r (SetTimeout 30000 # fx) t)))))"








section \<open>Numbers\<close>

text \<open>
  A JavaScript number is an IEEE double; a finite one is modelled by its exact rational
  value. \<open>round_double\<close> is the rounding every arithmetic operation ends with: to the
  nearest double, ties to the even significand, with gradual underflow; \<open>None\<close> stands
  for an infinite result.
\<close>

function bit_length :: "int \<Rightarrow> int" where
  "bit_length n = (if n \<le> 0 then 0 else 1 + bit_length (n div 2))"
  by pat_completeness auto
termination
  by (relation "measure nat") auto

declare bit_length.simps [simp del]

definition pow2 :: "int \<Rightarrow> rat" where
  "pow2 k = (if 0 \<le> k then 2 ^ nat k else 1 / 2 ^ nat (- k))"

text \<open>
  The integer part of the binary logarithm of a positive rational: from the bit length of
  its integer part when it is at least 1, from that of its reciprocal below 1.
\<close>

definition floor_log2 :: "rat \<Rightarrow> int" where
  "floor_log2 q =
     (if 1 \<le> q then bit_length \<lfloor>q\<rfloor> - 1 else - bit_length (\<lceil>1 / q\<rceil> - 1))"

definition round_half_even :: "rat \<Rightarrow> int" where
  "round_half_even r =
     (let f = \<lfloor>r\<rfloor>; d = r - of_int f
      in if d < 1 / 2 then f else if 1 / 2 < d then f + 1 else if even f then f else f + 1)"

definition round_double :: "rat \<Rightarrow> rat option" where
  "round_double q =
     (if q = 0 then Some 0
      else
        let a = \<bar>q\<bar>;
            e = max (- 1074) (floor_log2 a - 52);
            r = of_int (round_half_even (a / pow2 e)) * pow2 e
        in if pow2 1024 \<le> r then None else Some (if q < 0 then - r else r))"

text \<open>\<open>x * y\<close> on doubles.\<close>

definition js_times :: "rat \<Rightarrow> rat \<Rightarrow> rat option" where
  "js_times x y = round_double (x * y)"

text \<open>
  \<open>x.toFixed(f)\<close> for a finite \<open>x\<close>, after the language definition: the integer \<open>n\<close>
  for which \<open>n / 10^f\<close> is nearest to \<open>x\<close> (the larger one of two), written in decimal
  with \<open>f\<close> digits after the point. From \<open>10^21\<close> on the result is the number's
  ordinary text, which is not modelled: \<open>None\<close>.
\<close>

definition toFixed :: "nat \<Rightarrow> rat \<Rightarrow> string option" where
  "toFixed f x =
     (let s = (if x < 0 then ''-'' else []);
          a = \<bar>x\<bar>
      in if 10 ^ 21 \<le> a then None
         else
           let n = nat \<lfloor>a * 10 ^ f + 1 / 2\<rfloor>;
               m = show_nat n;
               m = (if length m \<le> f then replicate (f + 1 - length m) CHR ''0'' @ m else m);
               k = length m
           in Some (s @ (if f \<noteq> 0 then take (k - f) m @ ''.'' @ drop (k - f) m else m)))"

section \<open>The client pages\<close>

text \<open>
  The source holds two versions of the page component: the first with the verification
  form only, the second with four tabs (verification, emotion, age, gender). The state
  variables both versions share are the fields of \<open>form_state\<close>.
\<close>

text \<open>
  A value thrown in the browser, with what the pages' \<open>catch\<close> looks at in addition:
  whether it is an object, and \<open>JSON.stringify\<close> of it (\<open>None\<close> when that throws).
\<close>

record thrown_value = thrown +
  is_object :: bool
  stringified :: "string option"

datatype client_fetch =
    FetchRejects thrown_value
  | FetchAnswers nat "thrown_value + json"

datatype payload = FormBody "(string \<times> File) list" | JsonBody json

record client_call =
  call_url :: string
  call_method :: string
  call_headers :: "(string \<times> string) list"
  call_body :: payload

text \<open>
  The browser as the pages use it: \<open>process.env\<close>, the file reader, and what the one
  \<open>fetch\<close> of a submission comes back with (the status and the outcome of
  \<open>res.json()\<close>, or a rejection).
\<close>

record browser =
  process_env :: "string \<Rightarrow> string option"
  file_reader :: "File \<Rightarrow> thrown_value + string"
  fetch_answer :: client_fetch

record form_state =
  apiKey :: string
  isApiKeySaved :: bool
  isEditingApiKey :: bool
  image1 :: "File option"
  image2 :: "File option"
  image1Preview :: "string option"
  image2Preview :: "string option"
  isLoading :: bool
  error :: "string option"
  errorDetails :: "json option"
  showDebug :: bool

record single_page = form_state +
  response :: "json option"

record multi_page = form_state +
  activeTab :: string
  verificationResponse :: "json option"
  emotionImage :: "File option"
  emotionImagePreview :: "string option"
  emotionResponse :: "json option"
  ageImage :: "File option"
  ageImagePreview :: "string option"
  ageResponse :: "json option"
  genderImage :: "File option"
  genderImagePreview :: "string option"
  genderResponse :: "json option"

definition API_KEY_STORAGE_KEY :: string where
  "API_KEY_STORAGE_KEY = ''face-verification-api-key''"

definition MAX_IMAGE_SIZE :: nat where
  "MAX_IMAGE_SIZE = 5 * 1024 * 1024"

subsection \<open>The stored key\<close>

text \<open>
  \<open>s.trim()\<close> removes white space and line terminators from both ends; these are the
  ones among the code units a \<^typ>\<open>char\<close> can hold.
\<close>

definition js_space :: "char \<Rightarrow> bool" where
  "js_space c = (of_char c \<in> {9, 10, 11, 12, 13, 32, 160 :: nat})"

definition trim :: "string \<Rightarrow> string" where
  "trim s = rev (dropWhile js_space (rev (dropWhile js_space s)))"

text \<open>\<open>saveApiKey\<close>, the same in both versions; \<open>localStorage\<close> is a map of texts.\<close>

definition saveApiKey ::
  "'a form_state_scheme \<times> (string \<rightharpoonup> string) \<Rightarrow>
   'a form_state_scheme \<times> (string \<rightharpoonup> string)" where
  "saveApiKey = (\<lambda>(st, localStorage).
     if trim (apiKey st) \<noteq> [] then
       (st\<lparr>isApiKeySaved := True, isEditingApiKey := False\<rparr>,
        localStorage(API_KEY_STORAGE_KEY \<mapsto> apiKey st))
     else (st, localStorage))"

subsection \<open>Submitting\<close>

text \<open>\<open>process.env.NAME || fallback\<close>.\<close>

definition env_or :: "browser \<Rightarrow> string \<Rightarrow> string \<Rightarrow> string" where
  "env_or B name fallback =
     (case process_env B name of None \<Rightarrow> fallback | Some u \<Rightarrow> if u = [] then fallback else u)"

text \<open>
  \<open>handleApiError\<close> of the second version; the \<open>catch\<close> of the first version's
  \<open>handleSubmit\<close> holds the same statements.
\<close>

definition handleApiError :: "thrown_value \<Rightarrow> 'a form_state_scheme \<Rightarrow> 'a form_state_scheme" where
  "handleApiError err st =
     (let errorMessage =
            (if is_Error err then err_message err
             else if is_object err then
               (case stringified err of Some text \<Rightarrow> text | None \<Rightarrow> err_text err)
             else ''An unknown error occurred'')
      in st\<lparr>error := Some errorMessage\<rparr>)"

text \<open>Reading a member of \<open>null\<close> throws.\<close>

definition null_member_error :: thrown_value where
  "null_member_error =
     \<lparr> is_Error = True, err_name = ''TypeError'',
       err_message = ''Cannot read properties of null'',
       err_stack = None,
       err_text = ''TypeError: Cannot read properties of null'',
       is_object = True, stringified = Some ''{}'' \<rparr>"

text \<open>A state variable set to a decoded value: JSON's \<open>null\<close> is the state's \<open>null\<close>.\<close>

definition nullable :: "json \<Rightarrow> json option" where
  "nullable v = (if v = JNull then None else Some v)"

text \<open>
  What every submit handler does once the call is out: from \<open>const data = await res.json()\<close>
  to the end of \<open>finally\<close>. The handlers differ in the fallback message and in the state
  variable that receives the result.
\<close>

definition settle ::
  "client_fetch \<Rightarrow> string \<Rightarrow>
   (json option \<Rightarrow> 'a form_state_scheme \<Rightarrow> 'a form_state_scheme) \<Rightarrow>
   'a form_state_scheme \<Rightarrow> 'a form_state_scheme" where
  "settle answer fallback setResponse st =
     (case answer of
        FetchRejects err \<Rightarrow> (handleApiError err st)\<lparr>isLoading := False\<rparr>
      | FetchAnswers status body \<Rightarrow>
          (case body of
             Inl err \<Rightarrow> (handleApiError err st)\<lparr>isLoading := False\<rparr>
           | Inr data \<Rightarrow>
               if \<not> response_ok status then
                 (if data = JNull then
                    (handleApiError null_member_error st)\<lparr>isLoading := False\<rparr>
                  else
                    let errorMessage =
                          (case get_prop data ''error'' of
                             Some (JString e) \<Rightarrow> e
                           | _ \<Rightarrow> fallback);
                        details =
                          (case get_prop data ''details'' of
                             Some d \<Rightarrow> if js_truthy d then d else data
                           | None \<Rightarrow> data)
                    in st\<lparr>errorDetails := nullable details, error := Some errorMessage,
                          isLoading := False\<rparr>)
               else (setResponse (nullable data) st)\<lparr>isLoading := False\<rparr>))"

text \<open>\<open>handleSubmit\<close> of the first version: the form data goes out as it is.\<close>

definition handleSubmit :: "browser \<Rightarrow> single_page \<Rightarrow> single_page \<times> client_call list" where
  "handleSubmit B st =
     (case (image1 st, image2 st) of
        (Some img1, Some img2) \<Rightarrow>
          if apiKey st = [] then (st\<lparr>error := Some ''All fields are required''\<rparr>, [])
          else
            (let st1 = st\<lparr>isLoading := True, error := None, errorDetails := None,
                          response := None\<rparr>;
                 call =
                   \<lparr> call_url = env_or B ''FACE_API_URL'' ''https://face.simic.app/api/verify/'',
                     call_method = ''POST'',
                     call_headers = [(''X-API-KEY'', apiKey st), (''X-Service-Code'', ''face'')],
                     call_body = FormBody [(''img1'', img1), (''img2'', img2)] \<rparr>
             in (settle (fetch_answer B) ''Failed to verify faces''
                   (\<lambda>d s. s\<lparr>response := d\<rparr>) st1,
                 [call]))
      | _ \<Rightarrow> (st\<lparr>error := Some ''All fields are required''\<rparr>, []))"

text \<open>\<open>fileToBase64\<close> of the second version, with the browser's reader.\<close>

definition client_fileToBase64 :: "browser \<Rightarrow> File \<Rightarrow> thrown_value + string option" where
  "client_fileToBase64 B file =
     (case file_reader B file of
        Inl err \<Rightarrow> Inl err
      | Inr base64String \<Rightarrow> Inr (second (split_on CHR '','' base64String)))"

definition json_call :: "browser \<Rightarrow> string \<Rightarrow> string \<Rightarrow> string \<Rightarrow> json \<Rightarrow> client_call" where
  "json_call B name fallback key body =
     \<lparr> call_url = env_or B name fallback,
       call_method = ''POST'',
       call_headers =
         [(''Content-Type'', ''application/json''), (''X-API-KEY'', key),
          (''X-Service-Code'', ''face'')],
       call_body = JsonBody body \<rparr>"

definition handleVerificationSubmit ::
  "browser \<Rightarrow> multi_page \<Rightarrow> multi_page \<times> client_call list" where
  "handleVerificationSubmit B st =
     (if apiKey st = [] then (st\<lparr>error := Some ''API key is required''\<rparr>, [])
      else
        (case (image1 st, image2 st) of
           (Some img1, Some img2) \<Rightarrow>
             (let st1 = st\<lparr>isLoading := True, error := None, errorDetails := None,
                           verificationResponse := None\<rparr>
              in case client_fileToBase64 B img1 of
                   Inl err \<Rightarrow> ((handleApiError err st1)\<lparr>isLoading := False\<rparr>, [])
                 | Inr img1Base64 \<Rightarrow>
                     (case client_fileToBase64 B img2 of
                        Inl err \<Rightarrow> ((handleApiError err st1)\<lparr>isLoading := False\<rparr>, [])
                      | Inr img2Base64 \<Rightarrow>
                          (settle (fetch_answer B) ''Failed to verify faces''
                             (\<lambda>d s. s\<lparr>verificationResponse := d\<rparr>) st1,
                           [json_call B ''FACE_API_URL'' ''https://face.simic.app/api/verify/''
                              (apiKey st)
                              (JObject
                                 (js_object
                                    [(''img1'', map_option JString img1Base64),
                                     (''img2'', map_option JString img2Base64)]))])))
         | _ \<Rightarrow> (st\<lparr>error := Some ''Both images are required''\<rparr>, [])))"

definition handleEmotionSubmit :: "browser \<Rightarrow> multi_page \<Rightarrow> multi_page \<times> client_call list" where
  "handleEmotionSubmit B st =
     (if apiKey st = [] then (st\<lparr>error := Some ''API key is required''\<rparr>, [])
      else
        (case emotionImage st of
           None \<Rightarrow> (st\<lparr>error := Some ''Image is required''\<rparr>, [])
         | Some img \<Rightarrow>
             (let st1 = st\<lparr>isLoading := True, error := None, errorDetails := None,
                           emotionResponse := None\<rparr>
              in case client_fileToBase64 B img of
                   Inl err \<Rightarrow> ((handleApiError err st1)\<lparr>isLoading := False\<rparr>, [])
                 | Inr imageBase64 \<Rightarrow>
                     (settle (fetch_answer B) ''Failed to detect emotion''
                        (\<lambda>d s. s\<lparr>emotionResponse := d\<rparr>) st1,
                      [json_call B ''EMOTION_API_URL'' ''https://face.simic.app/api/emotion/''
                         (apiKey st)
                         (JObject (js_object [(''image'', map_option JString imageBase64)]))]))))"

definition handleAgeSubmit :: "browser \<Rightarrow> multi_page \<Rightarrow> multi_page \<times> client_call list" where
  "handleAgeSubmit B st =
     (if apiKey st = [] then (st\<lparr>error := Some ''API key is required''\<rparr>, [])
      else
        (case ageImage st of
           None \<Rightarrow> (st\<lparr>error := Some ''Image is required''\<rparr>, [])
         | Some img \<Rightarrow>
             (let st1 = st\<lparr>isLoading := True, error := None, errorDetails := None,
                           ageResponse := None\<rparr>
              in case client_fileToBase64 B img of
                   Inl err \<Rightarrow> ((handleApiError err st1)\<lparr>isLoading := False\<rparr>, [])
                 | Inr imageBase64 \<Rightarrow>
                     (settle (fetch_answer B) ''Failed to detect age''
                        (\<lambda>d s. s\<lparr>ageResponse := d\<rparr>) st1,
                      [json_call B ''AGE_API_URL'' ''https://face.simic.app/api/age/''
                         (apiKey st)
                         (JObject (js_object [(''image'', map_option JString imageBase64)]))]))))"

definition handleGenderSubmit :: "browser \<Rightarrow> multi_page \<Rightarrow> multi_page \<times> client_call list" where
  "handleGenderSubmit B st =
     (if apiKey st = [] then (st\<lparr>error := Some ''API key is required''\<rparr>, [])
      else
        (case genderImage st of
           None \<Rightarrow> (st\<lparr>error := Some ''Image is required''\<rparr>, [])
         | Some img \<Rightarrow>
             (let st1 = st\<lparr>isLoading := True, error := None, errorDetails := None,
                           genderResponse := None\<rparr>
              in case client_fileToBase64 B img of
                   Inl err \<Rightarrow> ((handleApiError err st1)\<lparr>isLoading := False\<rparr>, [])
                 | Inr imageBase64 \<Rightarrow>
                     (settle (fetch_answer B) ''Failed to detect gender''
                        (\<lambda>d s. s\<lparr>genderResponse := d\<rparr>) st1,
                      [json_call B ''GENDER_API_URL'' ''https://face.simic.app/api/gender/''
                         (apiKey st)
                         (JObject (js_object [(''image'', map_option JString imageBase64)]))]))))"

subsection \<open>Choosing images (second version)\<close>

text \<open>
  \<open>validateImageSize\<close> returns its verdict; the state is returned with it because the
  function sets the error message when it rejects.
\<close>

definition validateImageSize :: "File \<Rightarrow> multi_page \<Rightarrow> bool \<times> multi_page" where
  "validateImageSize file st =
     (if MAX_IMAGE_SIZE < file_size file then
        (False,
         st\<lparr>error :=
              Some (''Image size exceeds the maximum limit of '' @
                    show_nat (MAX_IMAGE_SIZE div (1024 * 1024)) @ ''MB'')\<rparr>)
      else (True, st))"

text \<open>
  The reader started by a change handler: when it has loaded, the callback stores the
  result as the preview; the handlers set no callback for a failure.
\<close>

definition loaded ::
  "browser \<Rightarrow> File \<Rightarrow> (string option \<Rightarrow> multi_page \<Rightarrow> multi_page) \<Rightarrow> multi_page \<Rightarrow> multi_page" where
  "loaded B file setPreview st =
     (case file_reader B file of Inl _ \<Rightarrow> st | Inr url \<Rightarrow> setPreview (Some url) st)"

text \<open>
  A change handler takes \<open>e.target.files\<close> (\<open>None\<close> for null) and returns the state
  after the event and the reader's callback, with the files handed to a reader.
\<close>

definition handleImage1Change ::
  "browser \<Rightarrow> File list option \<Rightarrow> multi_page \<Rightarrow> multi_page \<times> File list" where
  "handleImage1Change B files st =
     (case files of
        Some (file # _) \<Rightarrow>
          (case validateImageSize file st of
             (False, st') \<Rightarrow> (st', [])
           | (True, st') \<Rightarrow>
               (loaded B file (\<lambda>u s. s\<lparr>image1Preview := u\<rparr>) (st'\<lparr>image1 := Some file\<rparr>),
                [file]))
      | _ \<Rightarrow> (st, []))"

definition handleImage2Change ::
  "browser \<Rightarrow> File list option \<Rightarrow> multi_page \<Rightarrow> multi_page \<times> File list" where
  "handleImage2Change B files st =
     (case files of
        Some (file # _) \<Rightarrow>
          (case validateImageSize file st of
             (False, st') \<Rightarrow> (st', [])
           | (True, st') \<Rightarrow>
               (loaded B file (\<lambda>u s. s\<lparr>image2Preview := u\<rparr>) (st'\<lparr>image2 := Some file\<rparr>),
                [file]))
      | _ \<Rightarrow> (st, []))"

definition handleEmotionImageChange ::
  "browser \<Rightarrow> File list option \<Rightarrow> multi_page \<Rightarrow> multi_page \<times> File list" where
  "handleEmotionImageChange B files st =
     (case files of
        Some (file # _) \<Rightarrow>
          (case validateImageSize file st of
             (False, st') \<Rightarrow> (st', [])
           | (True, st') \<Rightarrow>
               (loaded B file (\<lambda>u s. s\<lparr>emotionImagePreview := u\<rparr>)
                  (st'\<lparr>emotionImage := Some file\<rparr>),
                [file]))
      | _ \<Rightarrow> (st, []))"

definition handleAgeImageChange ::
  "browser \<Rightarrow> File list option \<Rightarrow> multi_page \<Rightarrow> multi_page \<times> File list" where
  "handleAgeImageChange B files st =
     (case files of
        Some (file # _) \<Rightarrow>
          (case validateImageSize file st of
             (False, st') \<Rightarrow> (st', [])
           | (True, st') \<Rightarrow>
               (loaded B file (\<lambda>u s. s\<lparr>ageImagePreview := u\<rparr>) (st'\<lparr>ageImage := Some file\<rparr>),
                [file]))
      | _ \<Rightarrow> (st, []))"

definition handleGenderImageChange ::
  "browser \<Rightarrow> File list option \<Rightarrow> multi_page \<Rightarrow> multi_page \<times> File list" where
  "handleGenderImageChange B files st =
     (case files of
        Some (file # _) \<Rightarrow>
          (case validateImageSize file st of
             (False, st') \<Rightarrow> (st', [])
           | (True, st') \<Rightarrow>
               (loaded B file (\<lambda>u s. s\<lparr>genderImagePreview := u\<rparr>)
                  (st'\<lparr>genderImage := Some file\<rparr>),
                [file]))
      | _ \<Rightarrow> (st, []))"

subsection \<open>Showing the result of a verification\<close>

text \<open>
  What the page shows below the verification form, reduced to its content: an alert with
  its variant, icon, title and the lines of its description; the block headed
  \<open>API Response:\<close> with the value it prints by \<open>JSON.stringify(value, null, 2)\<close>; a
  bare text.
\<close>

datatype view =
    Alert string string string "string list"
  | ApiResponse json
  | Text string

text \<open>\<open>{value && (...)}\<close> for a value that is falsy: the number zero is shown as text.\<close>

definition falsy_view :: "json \<Rightarrow> view list" where
  "falsy_view r = (case r of JNumber _ \<Rightarrow> [Text ''0''] | _ \<Rightarrow> [])"

text \<open>
  The first version. The state variable is declared to hold a \<open>VerificationResponse\<close>
  (\<open>message: string\<close>, \<open>verified: boolean\<close>, \<open>similarity_score: number\<close>); for an
  object without these members, and for a product from \<open>10^21\<close> on, what is shown is not
  modelled (\<open>None\<close>).
\<close>

definition result_view :: "single_page \<Rightarrow> view list option" where
  "result_view st =
     (case response st of
        None \<Rightarrow> Some []
      | Some r \<Rightarrow>
          if \<not> js_truthy r then Some (falsy_view r)
          else
            (case (get_prop r ''verified'', get_prop r ''message'',
                   get_prop r ''similarity_score'') of
               (Some (JBool verified), Some (JString message), Some (JNumber score)) \<Rightarrow>
                 (case (case js_times score 100 of
                          None \<Rightarrow> Some (if score < 0 then ''-Infinity'' else ''Infinity'')
                        | Some percent \<Rightarrow> toFixed 2 percent) of
                    None \<Rightarrow> None
                  | Some digits \<Rightarrow>
                      Some
                        [Alert (if verified then ''default'' else ''destructive'')
                           (if verified then ''CheckCircle2'' else ''XCircle'')
                           (if verified then ''Match Found'' else ''No Match'')
                           [message, ''Similarity Score: '' @ digits @ ''%''],
                         ApiResponse r])
             | _ \<Rightarrow> None))"

text \<open>The second version, verification tab: the printed value only.\<close>

definition verification_result_view :: "multi_page \<Rightarrow> view list" where
  "verification_result_view st =
     (case verificationResponse st of
        None \<Rightarrow> []
      | Some r \<Rightarrow> if \<not> js_truthy r then falsy_view r else [ApiResponse r])"

section \<open>Example inputs\<close>

definition photo_a :: File where
  "photo_a = \<lparr> file_name = ''a.jpg'', file_type = ''image/jpeg'', file_size = 3 \<rparr>"

definition photo_b :: File where
  "photo_b = \<lparr> file_name = ''b.png'', file_type = ''image/png'', file_size = 3 \<rparr>"

text \<open>A reader that succeeds: the data URL of a file whose three bytes are ABC or XYZ.\<close>

definition example_reader :: "File \<Rightarrow> thrown + string" where
  "example_reader file =
     Inr (''data:'' @ file_type file @ '';base64,'' @
          (if file_name file = ''a.jpg'' then ''QUJD'' else ''WFla''))"

definition unauthorized_text :: string where
  \<open>unauthorized_text = ''{"message":"Unauthorized"}''\<close>

definition match_text :: string where
  \<open>match_text = ''{"verified":true,"similarity_score":0.5,"message":"Match"}''\<close>

definition rejected_text :: string where
  \<open>rejected_text = ''{"statusCode":400,"message":["img1 must be a string"]}''\<close>

definition age_text :: string where
  \<open>age_text = ''{"age":31,"confidence":0.5}''\<close>

text \<open>
  The decoder at the bodies used in the examples; no other text is decoded in them.
\<close>

definition example_decoder :: "string \<Rightarrow> json option" where
  "example_decoder text =
     map_of
       [(unauthorized_text, JObject [(''message'', JString ''Unauthorized'')]),
        (match_text,
           JObject [(''verified'', JBool True), (''similarity_score'', JNumber (1 / 2)),
                    (''message'', JString ''Match'')]),
        (rejected_text,
           JObject [(''statusCode'', JNumber 400),
                    (''message'', JArray [JString ''img1 must be a string''])]),
        (age_text, JObject [(''age'', JNumber 31), (''confidence'', JNumber (1 / 2))])]
       text"

definition example_platform :: "fetch_behaviour \<Rightarrow> platform" where
  "example_platform u =
     \<lparr> env_FACE_API_URL = None, env_AGE_API_URL = Some ''https://ages.example/v2'',
       readAsDataURL = example_reader, json_decoder = example_decoder,
       upstream = u, abort_stack = Some ''AbortError: This operation was aborted'' \<rparr>"




text \<open>A request without the key header whose body is not form data.\<close>

definition unreadable_request :: request where
  "unreadable_request =
     \<lparr> formData =
         Inl \<lparr> is_Error = True, err_name = ''TypeError'',
               err_message = ''Failed to parse body as FormData.'',
               err_stack = None, err_text = ''TypeError: Failed to parse body as FormData.'' \<rparr>,
       x_api_key = None \<rparr>"


definition keyless_request :: request where
  "keyless_request =
     \<lparr> formData = Inr [(''img1'', photo_a), (''img2'', photo_b), (''image'', photo_a)],
       x_api_key = None \<rparr>"

definition one_image_request :: request where
  "one_image_request = \<lparr> formData = Inr [(''img1'', photo_a)], x_api_key = Some ''k-123'' \<rparr>"

text \<open>The double that the literal \<open>0.93\<close> denotes.\<close>

definition similarity_093 :: rat where
  "similarity_093 = 8376695306909123 / 9007199254740992"

definition match_payload :: json where
  "match_payload =
     JObject [(''verified'', JBool True), (''similarity_score'', JNumber similarity_093),
              (''message'', JString ''Match'')]"

definition browser_reader :: "File \<Rightarrow> thrown_value + string" where
  "browser_reader file =
     Inr (''data:'' @ file_type file @ '';base64,'' @
          (if file_name file = ''a.jpg'' then ''QUJD'' else ''WFla''))"

definition example_browser :: "client_fetch \<Rightarrow> browser" where
  "example_browser a =
     \<lparr> process_env = (\<lambda>name. None), file_reader = browser_reader, fetch_answer = a \<rparr>"

definition blank_single :: single_page where
  "blank_single =
     \<lparr> apiKey = [], isApiKeySaved = False, isEditingApiKey = True,
       image1 = None, image2 = None, image1Preview = None, image2Preview = None,
       isLoading = False, error = None, errorDetails = None, showDebug = False,
       response = None \<rparr>"

definition blank_multi :: multi_page where
  "blank_multi =
     \<lparr> apiKey = [], isApiKeySaved = False, isEditingApiKey = True,
       image1 = None, image2 = None, image1Preview = None, image2Preview = None,
       isLoading = False, error = None, errorDetails = None, showDebug = False,
       activeTab = ''verification'', verificationResponse = None,
       emotionImage = None, emotionImagePreview = None, emotionResponse = None,
       ageImage = None, ageImagePreview = None, ageResponse = None,
       genderImage = None, genderImagePreview = None, genderResponse = None \<rparr>"

definition ready_single :: single_page where
  "ready_single = blank_single\<lparr>apiKey := ''k-123'', image1 := Some photo_a, image2 := Some photo_b\<rparr>"

definition ready_multi :: multi_page where
  "ready_multi = blank_multi\<lparr>apiKey := ''k-123'', image1 := Some photo_a, image2 := Some photo_b\<rparr>"

definition large_photo :: File where
  "large_photo = \<lparr> file_name = ''large.jpg'', file_type = ''image/jpeg'', file_size = 5242881 \<rparr>"

section \<open>Properties of the proxy endpoints\<close>

subsection \<open>Helper facts\<close>
















lemma split_on_nonempty: "split_on c s \<noteq> []"
  by (induction s) (auto split: list.splits)







subsection \<open>Claims\<close>
















text \<open>
  C4, as stated: a request without the key header is answered with HTTP 400. It fails
  for a request whose body cannot be read as form data: the form data is read before the
  header is looked at, the failure goes to the outer \<open>catch\<close>, and the answer is 500.
\<close>

theorem missing_key_counterexample:
  "x_api_key unreadable_request = None \<and>
   reply_status (verify_POST (example_platform Silent) unreadable_request) = 500 \<and>
   reply_status (age_POST (example_platform Silent) unreadable_request) = 500 \<and>
   reply_body (verify_POST (example_platform Silent) unreadable_request) =
     JObject [(''error'', JString ''Error: Failed to parse body as FormData.'')]"
  by (simp add: unreadable_request_def verify_POST_def age_POST_def caught_def)

text \<open>
  C4, amended. For a request whose body is read as form data: without the key header
  (or with an empty one) both routes answer 400 with \<open>X-API-KEY is required\<close>; with a
  key, the verification route answers 400 with \<open>Both images are required\<close> when
  \<open>img1\<close> or \<open>img2\<close> is missing and the age route answers 400 with
  \<open>Image is required\<close> when \<open>image\<close> is missing. In each case the handler has no
  effect: no outbound call, no timer.
\<close>

theorem missing_input_rejected:
  assumes "formData req = Inr form"
  shows "(x_api_key req = None \<or> x_api_key req = Some [] \<longrightarrow>
            reply_status (verify_POST P req) = 400 \<and>
            reply_body (verify_POST P req) = JObject [(''error'', JString ''X-API-KEY is required'')] \<and>
            effects (verify_POST P req) = [] \<and>
            reply_status (age_POST P req) = 400 \<and>
            reply_body (age_POST P req) = JObject [(''error'', JString ''X-API-KEY is required'')] \<and>
            effects (age_POST P req) = []) \<and>
         (x_api_key req = Some k \<and> k \<noteq> [] \<and>
          (map_of form ''img1'' = None \<or> map_of form ''img2'' = None) \<longrightarrow>
            reply_status (verify_POST P req) = 400 \<and>
            reply_body (verify_POST P req) =
              JObject [(''error'', JString ''Both images are required'')] \<and>
            effects (verify_POST P req) = []) \<and>
         (x_api_key req = Some k \<and> k \<noteq> [] \<and> map_of form ''image'' = None \<longrightarrow>
            reply_status (age_POST P req) = 400 \<and>
            reply_body (age_POST P req) = JObject [(''error'', JString ''Image is required'')] \<and>
            effects (age_POST P req) = [])"
  using assms
  by (auto simp: verify_POST_def age_POST_def respond_def split: option.splits)

theorem missing_input_rejected_witness:
  "reply_status (verify_POST (example_platform Silent) keyless_request) = 400 \<and>
   reply_status (age_POST (example_platform Silent) keyless_request) = 400 \<and>
   effects (verify_POST (example_platform Silent) keyless_request) = [] \<and>
   effects (age_POST (example_platform Silent) keyless_request) = [] \<and>
   reply_body (verify_POST (example_platform Silent) one_image_request) =
     JObject [(''error'', JString ''Both images are required'')] \<and>
   effects (verify_POST (example_platform Silent) one_image_request) = [] \<and>
   reply_body (age_POST (example_platform Silent) one_image_request) =
     JObject [(''error'', JString ''Image is required'')] \<and>
   effects (age_POST (example_platform Silent) one_image_request) = []"
proof -
  have f1: "formData keyless_request =
      Inr [(''img1'', photo_a), (''img2'', photo_b), (''image'', photo_a)]"
    by (simp add: keyless_request_def)
  have k1: "x_api_key keyless_request = None"
    by (simp add: keyless_request_def)
  have f2: "formData one_image_request = Inr [(''img1'', photo_a)]"
    by (simp add: one_image_request_def)
  have k2: "x_api_key one_image_request = Some ''k-123''"
    by (simp add: one_image_request_def)
  from missing_input_rejected [OF f1, where P = "example_platform Silent" and k = "[]"]
    missing_input_rejected [OF f2, where P = "example_platform Silent" and k = "''k-123''"] k1 k2
  show ?thesis by simp
qed


section \<open>Properties of the client pages\<close>

subsection \<open>Helper facts\<close>

lemma trim_empty_iff: "trim s = [] \<longleftrightarrow> (\<forall>c\<in>set s. js_space c)"
proof
  assume "trim s = []"
  then have "\<forall>c\<in>set (dropWhile js_space s). js_space c"
    by (simp add: trim_def dropWhile_eq_Nil_conv)
  then have "dropWhile js_space s = []"
    using hd_dropWhile [of js_space s] hd_in_set [of "dropWhile js_space s"] by blast
  then show "\<forall>c\<in>set s. js_space c"
    by (simp add: dropWhile_eq_Nil_conv)
next
  assume "\<forall>c\<in>set s. js_space c"
  then show "trim s = []"
    by (auto simp: trim_def dropWhile_eq_Nil_conv dest: set_dropWhileD)
qed

lemma floor_rat_numeral: "\<lfloor>numeral a / numeral b :: rat\<rfloor> = numeral a div numeral b"
  using floor_divide_of_int_eq [of "numeral a" "numeral b", where ?'a = rat] by simp

lemma ceiling_rat_numeral:
  "\<lceil>numeral a / numeral b :: rat\<rceil> = - (- numeral a div numeral b)"
  using floor_divide_of_int_eq [of "- numeral a" "numeral b", where ?'a = rat]
  by (simp add: ceiling_def)

text \<open>The literal \<open>0.93\<close> denotes \<open>similarity_093\<close>, and a hundred times that is 93.\<close>

lemma round_double_093: "round_double (93 / 100) = Some similarity_093"
proof -
  have f: "floor_log2 \<bar>93 / 100\<bar> = - 1"
    by (simp add: floor_log2_def bit_length.simps ceiling_rat_numeral)
  have e: "max (- 1074) (floor_log2 \<bar>93 / 100\<bar> - 52) = - 53"
    unfolding f by simp
  have m: "round_half_even (\<bar>93 / 100\<bar> / pow2 (- 53)) = 8376695306909123"
    by (simp add: pow2_def round_half_even_def Let_def floor_rat_numeral)
  show ?thesis
    unfolding round_double_def Let_def e m by (simp add: pow2_def similarity_093_def)
qed

lemma percent_093: "js_times similarity_093 100 = Some 93"
proof -
  have f: "floor_log2 \<bar>8376695306909123 / 9007199254740992 * 100\<bar> = 6"
    by (simp add: floor_log2_def bit_length.simps floor_rat_numeral)
  have e: "max (- 1074) (floor_log2 \<bar>8376695306909123 / 9007199254740992 * 100\<bar> - 52)
      = - 46"
    unfolding f by simp
  have m: "round_half_even (\<bar>8376695306909123 / 9007199254740992 * 100\<bar> / pow2 (- 46))
      = 6544293208522752"
    by (simp add: pow2_def round_half_even_def Let_def floor_rat_numeral)
  show ?thesis
    unfolding js_times_def similarity_093_def round_double_def Let_def e m
    by (simp add: pow2_def)
qed

lemma toFixed_93: "toFixed 2 93 = Some ''93.00''"
proof -
  have n: "nat \<lfloor>\<bar>93 :: rat\<bar> * 10 ^ 2 + 1 / 2\<rfloor> = 9300"
    by (simp add: floor_rat_numeral)
  have d: "show_nat 9300 = ''9300''"
    by (simp add: show_nat.simps)
  show ?thesis
    unfolding toFixed_def Let_def n d by simp
qed

subsection \<open>Claims\<close>

text \<open>
  C10. With a key input that is empty or holds white space only, \<open>saveApiKey\<close> changes
  nothing: the state (with both flags) and the local storage are returned as they were.
  The function is the same in both versions of the page.
\<close>

theorem save_blank_key_noop:
  assumes "\<forall>c\<in>set (apiKey st). js_space c"
  shows "saveApiKey (st, localStorage) = (st, localStorage)"
  using assms by (simp add: saveApiKey_def trim_empty_iff)

theorem save_blank_key_noop_witness:
  "js_space (CHR 0x20) \<and> js_space (CHR 0x09) \<and> js_space (CHR 0xA0) \<and>
   apiKey (blank_multi\<lparr>apiKey := [CHR 0x20, CHR 0x09, CHR 0xA0]\<rparr>) =
     [CHR 0x20, CHR 0x09, CHR 0xA0] \<and>
   saveApiKey (blank_multi\<lparr>apiKey := [CHR 0x20, CHR 0x09, CHR 0xA0]\<rparr>, Map.empty) =
     (blank_multi\<lparr>apiKey := [CHR 0x20, CHR 0x09, CHR 0xA0]\<rparr>, Map.empty) \<and>
   saveApiKey (blank_single, Map.empty) = (blank_single, Map.empty)"
proof -
  have w: "\<forall>c\<in>set (apiKey (blank_multi\<lparr>apiKey := [CHR 0x20, CHR 0x09, CHR 0xA0]\<rparr>)). js_space c"
    by (simp add: js_space_def)
  have e: "\<forall>c\<in>set (apiKey blank_single). js_space c"
    by (simp add: blank_single_def)
  from save_blank_key_noop [OF w, of Map.empty] save_blank_key_noop [OF e, of Map.empty] w
  show ?thesis by (simp add: js_space_def)
qed


text \<open>
  C7. A submission without the key or without a required image only sets the error
  message: every submit handler of either version returns the state it was given with
  nothing but \<open>error\<close> changed (so the result and the loading flag are as before), and
  issues no call.
\<close>

theorem invalid_submission_stays_local:
  "(image1 s = None \<or> image2 s = None \<or> apiKey s = [] \<longrightarrow>
      handleSubmit B s = (s\<lparr>error := Some ''All fields are required''\<rparr>, [])) \<and>
   (apiKey m = [] \<longrightarrow>
      handleVerificationSubmit B m = (m\<lparr>error := Some ''API key is required''\<rparr>, []) \<and>
      handleEmotionSubmit B m = (m\<lparr>error := Some ''API key is required''\<rparr>, []) \<and>
      handleAgeSubmit B m = (m\<lparr>error := Some ''API key is required''\<rparr>, []) \<and>
      handleGenderSubmit B m = (m\<lparr>error := Some ''API key is required''\<rparr>, [])) \<and>
   (apiKey m \<noteq> [] \<and> (image1 m = None \<or> image2 m = None) \<longrightarrow>
      handleVerificationSubmit B m = (m\<lparr>error := Some ''Both images are required''\<rparr>, [])) \<and>
   (apiKey m \<noteq> [] \<and> emotionImage m = None \<longrightarrow>
      handleEmotionSubmit B m = (m\<lparr>error := Some ''Image is required''\<rparr>, [])) \<and>
   (apiKey m \<noteq> [] \<and> ageImage m = None \<longrightarrow>
      handleAgeSubmit B m = (m\<lparr>error := Some ''Image is required''\<rparr>, [])) \<and>
   (apiKey m \<noteq> [] \<and> genderImage m = None \<longrightarrow>
      handleGenderSubmit B m = (m\<lparr>error := Some ''Image is required''\<rparr>, []))"
  by (auto simp: handleSubmit_def handleVerificationSubmit_def handleEmotionSubmit_def
      handleAgeSubmit_def handleGenderSubmit_def split: option.splits)

theorem invalid_submission_stays_local_witness:
  "handleSubmit (example_browser (FetchAnswers 200 (Inr match_payload))) blank_single =
     (blank_single\<lparr>error := Some ''All fields are required''\<rparr>, []) \<and>
   handleVerificationSubmit (example_browser (FetchAnswers 200 (Inr match_payload)))
     (ready_multi\<lparr>apiKey := []\<rparr>) =
     (ready_multi\<lparr>apiKey := [], error := Some ''API key is required''\<rparr>, []) \<and>
   handleVerificationSubmit (example_browser (FetchAnswers 200 (Inr match_payload)))
     (blank_multi\<lparr>apiKey := ''k-123''\<rparr>) =
     (blank_multi\<lparr>apiKey := ''k-123'', error := Some ''Both images are required''\<rparr>, []) \<and>
   handleAgeSubmit (example_browser (FetchAnswers 200 (Inr match_payload)))
     (blank_multi\<lparr>apiKey := ''k-123''\<rparr>) =
     (blank_multi\<lparr>apiKey := ''k-123'', error := Some ''Image is required''\<rparr>, []) \<and>
   isLoading (fst (handleAgeSubmit (example_browser (FetchAnswers 200 (Inr match_payload)))
     (blank_multi\<lparr>apiKey := ''k-123''\<rparr>))) = False"
proof -
  let ?B = "example_browser (FetchAnswers 200 (Inr match_payload))"
  have a: "image1 blank_single = None" "apiKey (ready_multi\<lparr>apiKey := []\<rparr>) = []"
    by (simp_all add: blank_single_def)
  have b: "apiKey (blank_multi\<lparr>apiKey := ''k-123''\<rparr>) \<noteq> []"
    "image1 (blank_multi\<lparr>apiKey := ''k-123''\<rparr>) = None"
    "ageImage (blank_multi\<lparr>apiKey := ''k-123''\<rparr>) = None"
    "isLoading (blank_multi\<lparr>apiKey := ''k-123''\<rparr>) = False"
    by (simp_all add: blank_multi_def)
  from invalid_submission_stays_local [of blank_single ?B "ready_multi\<lparr>apiKey := []\<rparr>"]
    invalid_submission_stays_local [of blank_single ?B "blank_multi\<lparr>apiKey := ''k-123''\<rparr>"]
    a b
  show ?thesis by simp
qed

text \<open>
  C8. In the second version a chosen file of more than 5 * 1024 * 1024 bytes is refused
  by every change handler: the state comes back with the error message set and nothing
  else changed (image and preview of the slot are as before), and no file is handed to a
  reader. The handlers issue no call in any case.
\<close>

theorem oversize_image_rejected:
  assumes "5 * 1024 * 1024 < file_size file"
  shows "handleImage1Change B (Some (file # rest)) st =
           (st\<lparr>error := Some ''Image size exceeds the maximum limit of 5MB''\<rparr>, []) \<and>
         handleImage2Change B (Some (file # rest)) st =
           (st\<lparr>error := Some ''Image size exceeds the maximum limit of 5MB''\<rparr>, []) \<and>
         handleEmotionImageChange B (Some (file # rest)) st =
           (st\<lparr>error := Some ''Image size exceeds the maximum limit of 5MB''\<rparr>, []) \<and>
         handleAgeImageChange B (Some (file # rest)) st =
           (st\<lparr>error := Some ''Image size exceeds the maximum limit of 5MB''\<rparr>, []) \<and>
         handleGenderImageChange B (Some (file # rest)) st =
           (st\<lparr>error := Some ''Image size exceeds the maximum limit of 5MB''\<rparr>, [])"
proof -
  have "validateImageSize file st =
      (False, st\<lparr>error := Some ''Image size exceeds the maximum limit of 5MB''\<rparr>)"
    using assms by (simp add: validateImageSize_def MAX_IMAGE_SIZE_def show_nat.simps)
  then show ?thesis
    by (simp add: handleImage1Change_def handleImage2Change_def handleEmotionImageChange_def
        handleAgeImageChange_def handleGenderImageChange_def)
qed

theorem oversize_image_rejected_witness:
  "5 * 1024 * 1024 < file_size large_photo \<and>
   handleImage1Change (example_browser (FetchAnswers 200 (Inr match_payload)))
     (Some [large_photo]) blank_multi =
     (blank_multi\<lparr>error := Some ''Image size exceeds the maximum limit of 5MB''\<rparr>, []) \<and>
   image1 (fst (handleImage1Change (example_browser (FetchAnswers 200 (Inr match_payload)))
     (Some [large_photo]) blank_multi)) = None \<and>
   image1Preview (fst (handleImage1Change
     (example_browser (FetchAnswers 200 (Inr match_payload)))
     (Some [large_photo]) blank_multi)) = None"
proof -
  have big: "5 * 1024 * 1024 < file_size large_photo"
    by (simp add: large_photo_def)
  from oversize_image_rejected [OF big,
      of "example_browser (FetchAnswers 200 (Inr match_payload))" "[]" blank_multi] big
  show ?thesis by (simp add: blank_multi_def)
qed

text \<open>A file of exactly the limit is taken: stored, read, and shown as the preview.\<close>

lemma image_at_limit_accepted:
  "handleImage1Change (example_browser (FetchAnswers 200 (Inr match_payload)))
     (Some [large_photo\<lparr>file_size := 5242880\<rparr>]) blank_multi =
     (blank_multi\<lparr>image1 := Some (large_photo\<lparr>file_size := 5242880\<rparr>),
                  image1Preview := Some ''data:image/jpeg;base64,WFla''\<rparr>,
      [large_photo\<lparr>file_size := 5242880\<rparr>])"
  by (simp add: handleImage1Change_def validateImageSize_def MAX_IMAGE_SIZE_def loaded_def
      example_browser_def browser_reader_def large_photo_def)

text \<open>
  C9, as stated: after a verification whose call returns
  \<open>{ verified: true, similarity_score: 0.93, message: "Match" }\<close> the page shows the
  summary \<open>Match Found\<close> with \<open>93.00%\<close>. It fails in the second version of the page:
  its verification tab shows the printed response and nothing else.
\<close>

theorem verification_result_counterexample:
  "verificationResponse (fst (handleVerificationSubmit
       (example_browser (FetchAnswers 200 (Inr match_payload))) ready_multi)) =
     Some match_payload \<and>
   verification_result_view (fst (handleVerificationSubmit
       (example_browser (FetchAnswers 200 (Inr match_payload))) ready_multi)) =
     [ApiResponse match_payload]"
  by (simp add: handleVerificationSubmit_def ready_multi_def blank_multi_def
      client_fileToBase64_def example_browser_def browser_reader_def photo_a_def photo_b_def
      settle_def response_ok_def nullable_def match_payload_def verification_result_view_def)

text \<open>
  C9, amended. After a verification whose call returns, with a 2xx status,
  \<open>{ verified: true, similarity_score: 0.93, message: "Match" }\<close>: the first version of
  the page shows an alert titled \<open>Match Found\<close>, with the message \<open>Match\<close> and the line
  \<open>Similarity Score: 93.00%\<close>, and below it the printed response; the second version
  shows the printed response only.
\<close>

theorem verification_result_shown:
  assumes "fetch_answer B = FetchAnswers status (Inr match_payload)"
    and "response_ok status"
  shows "(apiKey s \<noteq> [] \<and> image1 s = Some f1 \<and> image2 s = Some f2 \<longrightarrow>
            result_view (fst (handleSubmit B s)) =
              Some [Alert ''default'' ''CheckCircle2'' ''Match Found''
                      [''Match'', ''Similarity Score: 93.00%''],
                    ApiResponse match_payload]) \<and>
         (apiKey m \<noteq> [] \<and> image1 m = Some g1 \<and> image2 m = Some g2 \<and>
          client_fileToBase64 B g1 = Inr b1 \<and> client_fileToBase64 B g2 = Inr b2 \<longrightarrow>
            verification_result_view (fst (handleVerificationSubmit B m)) =
              [ApiResponse match_payload])"
proof (intro conjI impI)
  assume h: "apiKey s \<noteq> [] \<and> image1 s = Some f1 \<and> image2 s = Some f2"
  have np: "nullable match_payload = Some match_payload"
    by (simp add: nullable_def match_payload_def)
  have r: "response (fst (handleSubmit B s)) = Some match_payload"
    using assms h by (simp add: handleSubmit_def settle_def np Let_def)
  have t: "js_truthy match_payload"
    and v: "get_prop match_payload ''verified'' = Some (JBool True)"
    and g: "get_prop match_payload ''message'' = Some (JString ''Match'')"
    and c: "get_prop match_payload ''similarity_score'' = Some (JNumber similarity_093)"
    by (simp_all add: match_payload_def)
  show "result_view (fst (handleSubmit B s)) =
      Some [Alert ''default'' ''CheckCircle2'' ''Match Found''
              [''Match'', ''Similarity Score: 93.00%''],
            ApiResponse match_payload]"
    unfolding result_view_def r by (simp add: t v g c percent_093 toFixed_93)
next
  assume h: "apiKey m \<noteq> [] \<and> image1 m = Some g1 \<and> image2 m = Some g2 \<and>
      client_fileToBase64 B g1 = Inr b1 \<and> client_fileToBase64 B g2 = Inr b2"
  have np: "nullable match_payload = Some match_payload"
    by (simp add: nullable_def match_payload_def)
  have r: "verificationResponse (fst (handleVerificationSubmit B m)) = Some match_payload"
    using assms h by (simp add: handleVerificationSubmit_def settle_def np Let_def)
  have t: "js_truthy match_payload"
    by (simp add: match_payload_def)
  show "verification_result_view (fst (handleVerificationSubmit B m)) =
      [ApiResponse match_payload]"
    unfolding verification_result_view_def r by (simp add: t)
qed

theorem verification_result_shown_witness:
  "result_view (fst (handleSubmit (example_browser (FetchAnswers 200 (Inr match_payload)))
     ready_single)) =
     Some [Alert ''default'' ''CheckCircle2'' ''Match Found''
             [''Match'', ''Similarity Score: 93.00%''],
           ApiResponse match_payload] \<and>
   verification_result_view (fst (handleVerificationSubmit
     (example_browser (FetchAnswers 200 (Inr match_payload))) ready_multi)) =
     [ApiResponse match_payload]"
proof -
  let ?B = "example_browser (FetchAnswers 200 (Inr match_payload))"
  have a: "fetch_answer ?B = FetchAnswers 200 (Inr match_payload)"
    by (simp add: example_browser_def)
  have ok: "response_ok 200"
    by (simp add: response_ok_def)
  have s: "apiKey ready_single \<noteq> []" "image1 ready_single = Some photo_a"
    "image2 ready_single = Some photo_b"
    by (simp_all add: ready_single_def)
  have m: "apiKey ready_multi \<noteq> []" "image1 ready_multi = Some photo_a"
    "image2 ready_multi = Some photo_b"
    by (simp_all add: ready_multi_def)
  have e: "client_fileToBase64 ?B photo_a = Inr (Some ''QUJD'')"
    "client_fileToBase64 ?B photo_b = Inr (Some ''WFla'')"
    by (simp_all add: client_fileToBase64_def example_browser_def browser_reader_def
        photo_a_def photo_b_def)
  from verification_result_shown [OF a ok, where s = ready_single and ?f1.0 = photo_a
      and ?f2.0 = photo_b and m = ready_multi and ?g1.0 = photo_a and ?g2.0 = photo_b
      and ?b1.0 = "Some ''QUJD''" and ?b2.0 = "Some ''WFla''"] s m e
  show ?thesis by simp
qed


end
